theory Spec2Isabelle
  imports Complex_Main "HOL-Library.AList"
begin

section \<open>Real-time CDC pipeline (src/pipelines/cdc\_realtime.py)\<close>

text \<open>
  A shallow embedding of \<^verbatim>\<open>CDCEvent\<close>, \<^verbatim>\<open>BigQueryCDCSink\<close> and
  \<^verbatim>\<open>CDCRealtimePipeline\<close>. Python objects are records, every \<^verbatim>\<open>raise\<close> is an
  \<open>Inl\<close> of a sum, mutation of \<^verbatim>\<open>self\<close> is state passing, and the calls a method
  makes on the message, the logger and the BigQuery client are returned as a trace of
  effects next to the new state.

  What lies outside the repository is kept at the boundary:
  \<^item> \<^verbatim>\<open>json.loads(message.data.decode("utf-8"))\<close>, the \<^verbatim>\<open>repr\<close> of a float and the
    \<^verbatim>\<open>str\<close> of a list or dict are parameters (record \<open>pylib\<close>);
  \<^item> the BigQuery library is a record of functions (record \<open>bq_client\<close>); the calls
    that reach the service act on an arbitrary world state \<open>'w\<close>, so a call may answer
    differently each time it is made;
  \<^item> clock readings (\<^verbatim>\<open>time.time()\<close>, \<^verbatim>\<open>datetime.utcnow()\<close>) are arguments.

  Python floats are modelled by exact rationals: \<^verbatim>\<open>time.time()\<close> readings, the
  quotient \<^verbatim>\<open>timestamp_ms / 1000\<close> and JSON float literals carry no rounding error here.
\<close>

subsection \<open>Decoded JSON values\<close>

text \<open>
  The values \<^verbatim>\<open>json.loads\<close> returns: \<^verbatim>\<open>None\<close>, \<^verbatim>\<open>bool\<close>, \<^verbatim>\<open>int\<close>,
  \<^verbatim>\<open>float\<close>, \<^verbatim>\<open>str\<close>, \<^verbatim>\<open>list\<close> and \<^verbatim>\<open>dict\<close>. A dict is an association list in
  insertion order.
\<close>

datatype json =
    JNull
  | JBool bool
  | JInt int
  | JFloat rat
  | JString string
  | JArray "json list"
  | JObject "(string \<times> json) list"

datatype exn =
    JSONDecodeError
  | UnicodeDecodeError
  | AttributeError
  | TypeError
  | ValueError
  | BackendError string

text \<open>Python truthiness, as tested by \<^verbatim>\<open>if x\<close> and \<^verbatim>\<open>x or y\<close>.\<close>

fun truthy :: "json \<Rightarrow> bool" where
  "truthy JNull = False"
| "truthy (JBool b) = b"
| "truthy (JInt i) = (i \<noteq> 0)"
| "truthy (JFloat q) = (q \<noteq> 0)"
| "truthy (JString s) = (s \<noteq> [])"
| "truthy (JArray xs) = (xs \<noteq> [])"
| "truthy (JObject kvs) = (kvs \<noteq> [])"

definition py_or :: "json \<Rightarrow> json \<Rightarrow> json" where
  "py_or a b = (if truthy a then a else b)"

text \<open>A list or a dict is unhashable: using one as a dict key raises \<^verbatim>\<open>TypeError\<close>.\<close>

fun hashable :: "json \<Rightarrow> bool" where
  "hashable (JArray xs) = False"
| "hashable (JObject kvs) = False"
| "hashable v = True"

text \<open>
  Equality of dict keys: numbers compare by value across \<^verbatim>\<open>bool\<close>, \<^verbatim>\<open>int\<close> and
  \<^verbatim>\<open>float\<close> (\<^verbatim>\<open>True == 1 == 1.0\<close>), everything else structurally.
\<close>

fun num_val :: "json \<Rightarrow> rat option" where
  "num_val (JBool b) = Some (if b then 1 else 0)"
| "num_val (JInt i) = Some (of_int i)"
| "num_val (JFloat q) = Some q"
| "num_val v = None"

definition py_eq :: "json \<Rightarrow> json \<Rightarrow> bool" where
  "py_eq a b =
     (case (num_val a, num_val b) of
        (Some x, Some y) \<Rightarrow> x = y
      | (None, None) \<Rightarrow> a = b
      | _ \<Rightarrow> False)"

text \<open>\<^verbatim>\<open>d.get(key, default)\<close> on a dict with string keys.\<close>

definition dict_get :: "(string \<times> json) list \<Rightarrow> string \<Rightarrow> json \<Rightarrow> json" where
  "dict_get d k dflt = (case map_of d k of None \<Rightarrow> dflt | Some v \<Rightarrow> v)"

subsection \<open>Text of numbers, \<^verbatim>\<open>json.dumps\<close> and \<^verbatim>\<open>str\<close>\<close>

text \<open>The decimal digits of a non-negative integer, most significant first.\<close>

function dec_digits :: "int \<Rightarrow> string" where
  "dec_digits n =
     (if n < 10 then [''0123456789'' ! nat n]
      else dec_digits (n div 10) @ [''0123456789'' ! nat (n mod 10)])"
  by pat_completeness auto
termination
  by (relation "measure nat") auto

declare dec_digits.simps [simp del]

definition py_str_int :: "int \<Rightarrow> string" where
  "py_str_int i = (if i < 0 then CHR ''-'' # dec_digits (- i) else dec_digits i)"

text \<open>\<^verbatim>\<open>"%0wd" % n\<close> for a non-negative integer.\<close>

definition zero_pad :: "nat \<Rightarrow> int \<Rightarrow> string" where
  "zero_pad w n = replicate (w - length (dec_digits n)) CHR ''0'' @ dec_digits n"

fun join :: "string \<Rightarrow> string list \<Rightarrow> string" where
  "join sep [] = []"
| "join sep [x] = x"
| "join sep (x # y # ys) = x @ sep @ join sep (y # ys)"

text \<open>
  The string escapes of \<^verbatim>\<open>json.dumps\<close> with \<^verbatim>\<open>ensure_ascii=True\<close>: a character is a
  code point below 256; everything outside space..tilde, the quote and the backslash are
  escaped.
\<close>

definition hex_digit :: "nat \<Rightarrow> char" where
  "hex_digit n = ''0123456789abcdef'' ! n"

definition escape_char :: "char \<Rightarrow> string" where
  "escape_char c =
     (if c = CHR 0x22 then [CHR 0x5C, CHR 0x22]
      else if c = CHR 0x5C then [CHR 0x5C, CHR 0x5C]
      else if c = CHR 0x0A then [CHR 0x5C, CHR ''n'']
      else if c = CHR 0x0D then [CHR 0x5C, CHR ''r'']
      else if c = CHR 0x09 then [CHR 0x5C, CHR ''t'']
      else if c = CHR 0x08 then [CHR 0x5C, CHR ''b'']
      else if c = CHR 0x0C then [CHR 0x5C, CHR ''f'']
      else if (of_char c :: nat) < 32 \<or> 126 < (of_char c :: nat)
        then [CHR 0x5C, CHR ''u'', CHR ''0'', CHR ''0'',
              hex_digit (of_char c div 16), hex_digit (of_char c mod 16)]
      else [c])"

definition json_quote :: "string \<Rightarrow> string" where
  "json_quote s = CHR 0x22 # concat (map escape_char s) @ [CHR 0x22]"

text \<open>The part of the Python runtime that is a parameter.\<close>

record pylib =
  json_loads :: "string \<Rightarrow> exn + json"
  float_repr :: "rat \<Rightarrow> string"
  container_str :: "json \<Rightarrow> string"

text \<open>\<^verbatim>\<open>json.dumps(v)\<close> with the default separators.\<close>

fun dumps :: "pylib \<Rightarrow> json \<Rightarrow> string" where
  "dumps lib JNull = ''null''"
| "dumps lib (JBool b) = (if b then ''true'' else ''false'')"
| "dumps lib (JInt i) = py_str_int i"
| "dumps lib (JFloat q) = float_repr lib q"
| "dumps lib (JString s) = json_quote s"
| "dumps lib (JArray xs) = ''['' @ join '', '' (map (dumps lib) xs) @ '']''"
| "dumps lib (JObject kvs) =
     ''{'' @ join '', '' (map (\<lambda>kv. json_quote (fst kv) @ '': '' @ dumps lib (snd kv)) kvs) @ ''}''"

text \<open>\<^verbatim>\<open>str(v)\<close>, as used by \<^verbatim>\<open>str(value)\<close> and by f-strings.\<close>

fun py_str :: "pylib \<Rightarrow> json \<Rightarrow> string" where
  "py_str lib JNull = ''None''"
| "py_str lib (JBool b) = (if b then ''True'' else ''False'')"
| "py_str lib (JInt i) = py_str_int i"
| "py_str lib (JFloat q) = float_repr lib q"
| "py_str lib (JString s) = s"
| "py_str lib v = container_str lib v"

subsection \<open>\<^verbatim>\<open>datetime\<close>\<close>

text \<open>
  A \<^verbatim>\<open>datetime\<close> is its number of microseconds since 1970-01-01T00:00:00.
  \<open>civil_from_days\<close> is the proleptic Gregorian calendar date (year, month, day) of a
  day number.
\<close>

definition civil_from_days :: "int \<Rightarrow> int \<times> int \<times> int" where
  "civil_from_days days =
     (let z = days + 719468;
          era = z div 146097;
          doe = z mod 146097;
          yoe = (doe - doe div 1460 + doe div 36524 - doe div 146096) div 365;
          doy = doe - (365 * yoe + yoe div 4 - yoe div 100);
          mp = (5 * doy + 2) div 153;
          d = doy - (153 * mp + 2) div 5 + 1;
          m = (if mp < 10 then mp + 3 else mp - 9);
          y = yoe + era * 400 + (if m \<le> 2 then 1 else 0)
      in (y, m, d))"

text \<open>
  \<^verbatim>\<open>dt.isoformat()\<close>: \<^verbatim>\<open>YYYY-MM-DDTHH:MM:SS\<close>, followed by \<^verbatim>\<open>.ffffff\<close> when the
  microsecond is not zero.
\<close>

definition isoformat :: "int \<Rightarrow> string" where
  "isoformat us =
     (let secs = us div 1000000;
          micro = us mod 1000000;
          days = secs div 86400;
          sod = secs mod 86400;
          (y, m, d) = civil_from_days days
      in zero_pad 4 y @ ''-'' @ zero_pad 2 m @ ''-'' @ zero_pad 2 d @ ''T''
         @ zero_pad 2 (sod div 3600) @ '':'' @ zero_pad 2 (sod mod 3600 div 60)
         @ '':'' @ zero_pad 2 (sod mod 60)
         @ (if micro = 0 then [] else ''.'' @ zero_pad 6 micro))"

text \<open>Rounding to the nearest integer, ties to even.\<close>

definition round_half_even :: "rat \<Rightarrow> int" where
  "round_half_even q =
     (let f = \<lfloor>q\<rfloor>; r = q - of_int f
      in if r < 1 / 2 then f
         else if 1 / 2 < r then f + 1
         else if even f then f else f + 1)"

text \<open>
  \<^verbatim>\<open>datetime.utcfromtimestamp(t)\<close> for \<open>t\<close> seconds: the time rounded to the microsecond,
  and an exception (\<^verbatim>\<open>ValueError\<close>, \<^verbatim>\<open>OverflowError\<close> or \<^verbatim>\<open>OSError\<close>, all written
  \<open>ValueError\<close> here) outside the years 1 to 9999.
\<close>

definition utcfromtimestamp :: "rat \<Rightarrow> exn + int" where
  "utcfromtimestamp t =
     (let us = round_half_even (t * 1000000)
      in if - 62135596800000000 \<le> us \<and> us \<le> 253402300799999999 then Inr us
         else Inl ValueError)"

subsection \<open>\<^verbatim>\<open>CDCEvent\<close>\<close>

text \<open>
  The dataclass. The annotations say \<^verbatim>\<open>str\<close>, \<^verbatim>\<open>dict | None\<close> and \<^verbatim>\<open>int\<close>, but
  \<^verbatim>\<open>from_debezium\<close> stores whatever the payload holds, so every field is a decoded
  JSON value; an absent \<^verbatim>\<open>before\<close> or \<^verbatim>\<open>after\<close> is \<^verbatim>\<open>None\<close>, that is \<open>JNull\<close>.
\<close>

record cdc_event =
  table_name :: json
  operation :: json
  before :: json
  after :: json
  timestamp_ms :: json
  source_db :: string

text \<open>
  \<^verbatim>\<open>CDCEvent.from_debezium\<close>. \<^verbatim>\<open>payload.get\<close> and \<^verbatim>\<open>source.get\<close> exist on a dict
  only: on any other value the attribute lookup raises \<^verbatim>\<open>AttributeError\<close>.
\<close>

definition from_debezium :: "json \<Rightarrow> exn + cdc_event" where
  "from_debezium payload =
     (case payload of
        JObject p \<Rightarrow>
          (case dict_get p ''source'' (JObject []) of
             JObject source \<Rightarrow>
               Inr \<lparr>table_name = dict_get source ''table'' (JString ''unknown''),
                    operation = dict_get p ''op'' (JString ''?''),
                    before = dict_get p ''before'' JNull,
                    after = dict_get p ''after'' JNull,
                    timestamp_ms = dict_get p ''ts_ms'' (JInt 0),
                    source_db = ''ecommerce''\<rparr>
           | _ \<Rightarrow> Inl AttributeError)
      | _ \<Rightarrow> Inl AttributeError)"

text \<open>
  \<^verbatim>\<open>CDCEvent.operation_label\<close>: a lookup in a dict literal, which hashes the key
  first.
\<close>

definition operation_label :: "cdc_event \<Rightarrow> exn + string" where
  "operation_label ev =
     (if \<not> hashable (operation ev) then Inl TypeError
      else case operation ev of
             JString s \<Rightarrow>
               (case map_of [(''c'', ''INSERT''), (''u'', ''UPDATE''),
                             (''d'', ''DELETE''), (''r'', ''SNAPSHOT'')] s of
                  Some l \<Rightarrow> Inr l
                | None \<Rightarrow> Inr ''UNKNOWN'')
           | _ \<Rightarrow> Inr ''UNKNOWN'')"

text \<open>
  \<^verbatim>\<open>datetime.utcfromtimestamp(self.timestamp_ms / 1000).isoformat()\<close>: the division
  raises \<^verbatim>\<open>TypeError\<close> on anything that is not a number. The quotient is the exact
  rational here and a double in Python: the two agree on the text up to the microsecond
  while the time is below about \<open>2^33\<close> seconds (the year 2242), and at 0 in
  particular; beyond that the last microsecond digits of the code may differ from the
  model's. Nothing proved below reads those digits.
\<close>

definition cdc_timestamp :: "cdc_event \<Rightarrow> exn + string" where
  "cdc_timestamp ev =
     (case num_val (timestamp_ms ev) of
        None \<Rightarrow> Inl TypeError
      | Some ms \<Rightarrow>
          (case utcfromtimestamp (ms / 1000) of
             Inl e \<Rightarrow> Inl e
           | Inr us \<Rightarrow> Inr (isoformat us)))"

text \<open>
  A BigQuery row is a Python dict from column names to values: the strings are
  \<open>JString\<close>, \<^verbatim>\<open>None\<close> is \<open>JNull\<close>. \<^verbatim>\<open>row[k] = v\<close> is \<open>AList.update\<close>, which
  replaces the value of a key in place and appends a new key at the end.
\<close>

type_synonym row = "(string \<times> json) list"

text \<open>The loop \<^verbatim>\<open>for key, value in self.after.items()\<close>.\<close>

definition flatten_after :: "pylib \<Rightarrow> (string \<times> json) list \<Rightarrow> row \<Rightarrow> row" where
  "flatten_after lib items r =
     fold (\<lambda>kv acc.
             AList.update (''col_'' @ fst kv)
               (if snd kv \<noteq> JNull then JString (py_str lib (snd kv)) else JNull) acc)
          items r"

text \<open>
  The dict literal that opens \<^verbatim>\<open>to_bigquery_row\<close>, given the operation label and
  the text of the event time; \<open>now\<close> is the reading of \<^verbatim>\<open>datetime.utcnow()\<close>.
\<close>

definition audit_columns :: "pylib \<Rightarrow> int \<Rightarrow> cdc_event \<Rightarrow> string \<Rightarrow> string \<Rightarrow> row" where
  "audit_columns lib now ev l ts =
     [(''cdc_table'', table_name ev),
      (''cdc_operation'', JString l),
      (''cdc_timestamp'', JString ts),
      (''before_data'', if truthy (before ev) then JString (dumps lib (before ev)) else JNull),
      (''after_data'', if truthy (after ev) then JString (dumps lib (after ev)) else JNull),
      (''raw_payload'', JString (dumps lib (py_or (py_or (after ev) (before ev)) (JObject [])))),
      (''ingested_at'', JString (isoformat now))]"

text \<open>
  \<^verbatim>\<open>CDCEvent.to_bigquery_row\<close>. The entries of the dict literal are evaluated in
  order, so the operation label fails before the event time does; \<^verbatim>\<open>self.after.items()\<close>
  raises \<^verbatim>\<open>AttributeError\<close> when a truthy \<^verbatim>\<open>after\<close> is not a dict.
\<close>

definition to_bigquery_row :: "pylib \<Rightarrow> int \<Rightarrow> cdc_event \<Rightarrow> exn + row" where
  "to_bigquery_row lib now ev =
     (case operation_label ev of
        Inl e \<Rightarrow> Inl e
      | Inr l \<Rightarrow>
     (case cdc_timestamp ev of
        Inl e \<Rightarrow> Inl e
      | Inr ts \<Rightarrow>
          if truthy (after ev)
          then (case after ev of
                  JObject items \<Rightarrow> Inr (flatten_after lib items (audit_columns lib now ev l ts))
                | _ \<Rightarrow> Inl AttributeError)
          else Inr (audit_columns lib now ev l ts)))"

subsection \<open>\<^verbatim>\<open>CDCPipelineConfig\<close>\<close>

record cdc_pipeline_config =
  project_id :: string
  subscription_id :: string
  dataset_id :: string
  batch_size :: int
  flush_interval_sec :: rat
  max_outstanding_messages :: int
  ack_deadline_sec :: int

text \<open>The defaults of the dataclass, with no environment variable set.\<close>

definition default_config :: cdc_pipeline_config where
  "default_config =
     \<lparr>project_id = ''local-dev'', subscription_id = ''cdc-events-sub'', dataset_id = ''raw'',
      batch_size = 100, flush_interval_sec = 5, max_outstanding_messages = 1000,
      ack_deadline_sec = 60\<rparr>"

subsection \<open>\<^verbatim>\<open>BigQueryCDCSink\<close>\<close>

text \<open>
  The calls of a method on the Pub/Sub message and on the logger, in the order they are
  made.
\<close>

datatype effect = Ack | Nack | LogInfo string | LogError string

text \<open>One entry of the list \<^verbatim>\<open>insert_rows_json\<close> returns: a row index and its error.\<close>

type_synonym insert_error = "nat \<times> string"

text \<open>
  The BigQuery library: \<^verbatim>\<open>bigquery.Table(table_id, schema=schema)\<close> returns or raises
  (\<^verbatim>\<open>ValueError\<close> on a table id it cannot split into project, dataset and table);
  \<^verbatim>\<open>create_table(table, exists_ok=True)\<close> returns or raises;
  \<^verbatim>\<open>insert_rows_json(table_id, rows)\<close> returns the list of per-row errors or raises.
  The last two read and change the world state.
\<close>

record 'w bq_client =
  new_table :: "string \<Rightarrow> exn option"
  create_table :: "string \<Rightarrow> 'w \<Rightarrow> exn option \<times> 'w"
  insert_rows_json :: "string \<Rightarrow> row list \<Rightarrow> 'w \<Rightarrow> (exn + insert_error list) \<times> 'w"

record sink_state =
  sink_project_id :: string
  sink_dataset_id :: string
  table_schemas :: "json list"

text \<open>
  \<^verbatim>\<open>ensure_table_exists\<close>. \<open>table_schemas\<close> holds the keys of the dict
  \<^verbatim>\<open>_table_schemas\<close>; the membership test hashes the table name. The table object is
  built outside the \<^verbatim>\<open>try\<close>, so its exception is not logged; the one of
  \<^verbatim>\<open>create_table\<close> is logged and raised again.
\<close>

definition ensure_table_exists ::
  "pylib \<Rightarrow> 'w bq_client \<Rightarrow> sink_state \<Rightarrow> json \<Rightarrow> 'w
     \<Rightarrow> (exn + string) \<times> sink_state \<times> 'w \<times> effect list" where
  "ensure_table_exists lib client s tname w =
     (let table_id = sink_project_id s @ ''.'' @ sink_dataset_id s @ ''.cdc_'' @ py_str lib tname
      in if \<not> hashable tname then (Inl TypeError, s, w, [])
         else if list_ex (\<lambda>k. py_eq k tname) (table_schemas s) then (Inr table_id, s, w, [])
         else (case new_table client table_id of
                 Some e \<Rightarrow> (Inl e, s, w, [])
               | None \<Rightarrow>
                   (case create_table client table_id w of
                      (Some e, w1) \<Rightarrow> (Inl e, s, w1, [LogError ''Failed to create table''])
                    | (None, w1) \<Rightarrow>
                        (Inr table_id, s\<lparr>table_schemas := table_schemas s @ [tname]\<rparr>, w1,
                         [LogInfo ''Table ensured'']))))"

text \<open>\<^verbatim>\<open>write_batch\<close>: the result is the \<^verbatim>\<open>int\<close> it returns, or the exception.\<close>

definition write_batch ::
  "pylib \<Rightarrow> 'w bq_client \<Rightarrow> sink_state \<Rightarrow> json \<Rightarrow> row list \<Rightarrow> 'w
     \<Rightarrow> (exn + int) \<times> sink_state \<times> 'w \<times> effect list" where
  "write_batch lib client s tname rows w =
     (if rows = [] then (Inr 0, s, w, [])
      else (case ensure_table_exists lib client s tname w of
              (Inl e, s1, w1, fx) \<Rightarrow> (Inl e, s1, w1, fx)
            | (Inr table_id, s1, w1, fx) \<Rightarrow>
                (case insert_rows_json client table_id rows w1 of
                   (Inl e, w2) \<Rightarrow> (Inl e, s1, w2, fx)
                 | (Inr errors, w2) \<Rightarrow>
                     if errors \<noteq> []
                     then (Inr (int (length rows) - int (length errors)), s1, w2,
                           fx @ [LogError ''BigQuery insert errors''])
                     else (Inr (int (length rows)), s1, w2,
                           fx @ [LogInfo ''Batch written to BigQuery'']))))"

subsection \<open>\<^verbatim>\<open>CDCRealtimePipeline\<close>\<close>

record pipeline =
  config :: cdc_pipeline_config
  sink :: sink_state
  buffer :: "(json \<times> row list) list"
  buffer_count :: int
  last_flush_time :: rat
  running :: bool
  total_processed :: int

text \<open>
  Lines 233 to 235, on the dict \<^verbatim>\<open>_buffer\<close> in insertion order: a table not yet in
  the dict gets an empty list at the end, then the row is appended to the table's list.
\<close>

fun buffer_add :: "json \<Rightarrow> row \<Rightarrow> (json \<times> row list) list \<Rightarrow> (json \<times> row list) list" where
  "buffer_add tname r [] = [(tname, [r])]"
| "buffer_add tname r ((k, rs) # rest) =
     (if py_eq k tname then (k, rs @ [r]) # rest else (k, rs) # buffer_add tname r rest)"

definition buffer_append :: "json \<Rightarrow> row \<Rightarrow> pipeline \<Rightarrow> pipeline" where
  "buffer_append tname r p =
     p\<lparr>buffer := buffer_add tname r (buffer p), buffer_count := buffer_count p + 1\<rparr>"

text \<open>\<^verbatim>\<open>_should_flush\<close>; \<open>now\<close> is the reading of \<^verbatim>\<open>time.time()\<close>.\<close>

definition should_flush :: "pipeline \<Rightarrow> rat \<Rightarrow> bool" where
  "should_flush p now =
     (if buffer_count p \<ge> batch_size (config p) then True
      else if now - last_flush_time p \<ge> flush_interval_sec (config p) then True
      else False)"

text \<open>
  The loop of \<^verbatim>\<open>_flush_all_buffers\<close> over \<^verbatim>\<open>self._buffer.items()\<close>: an exception
  of \<^verbatim>\<open>write_batch\<close> ends it.
\<close>

fun write_tables ::
  "pylib \<Rightarrow> 'w bq_client \<Rightarrow> sink_state \<Rightarrow> 'w \<Rightarrow> (json \<times> row list) list \<Rightarrow> int
     \<Rightarrow> (exn + int) \<times> sink_state \<times> 'w \<times> effect list" where
  "write_tables lib client s w [] total_written = (Inr total_written, s, w, [])"
| "write_tables lib client s w ((tname, rows) # rest) total_written =
     (case write_batch lib client s tname rows w of
        (Inl e, s1, w1, fx) \<Rightarrow> (Inl e, s1, w1, fx)
      | (Inr written, s1, w1, fx) \<Rightarrow>
          (case write_tables lib client s1 w1 rest (total_written + written) of
             (res, s2, w2, fx2) \<Rightarrow> (res, s2, w2, fx @ fx2)))"

text \<open>
  \<^verbatim>\<open>_flush_all_buffers\<close>; \<open>t_done\<close> is the reading of \<^verbatim>\<open>time.time()\<close> on its last
  line. The first component is the exception that leaves the method, if any.
\<close>

definition flush_all_buffers ::
  "pylib \<Rightarrow> 'w bq_client \<Rightarrow> rat \<Rightarrow> pipeline \<Rightarrow> 'w
     \<Rightarrow> exn option \<times> pipeline \<times> 'w \<times> effect list" where
  "flush_all_buffers lib client t_done p w =
     (if buffer p = [] then (None, p, w, [])
      else (case write_tables lib client (sink p) w (buffer p) 0 of
              (Inl e, s1, w1, fx) \<Rightarrow> (Some e, p\<lparr>sink := s1\<rparr>, w1, fx)
            | (Inr total_written, s1, w1, fx) \<Rightarrow>
                (None,
                 p\<lparr>sink := s1,
                   total_processed := total_processed p + total_written,
                   buffer := [],
                   buffer_count := 0,
                   last_flush_time := t_done\<rparr>,
                 w1, fx @ [LogInfo ''Buffer flushed''])))"

text \<open>
  The two parts of \<^verbatim>\<open>_flush_all_buffers\<close>, for runs in which another thread gets in
  between them. \<open>flush_write\<close> is lines 261 to 276: the test for an empty buffer (the
  result \<open>Inr False\<close> is the early \<^verbatim>\<open>return\<close>), the write loop, the total and the log
  line. \<open>flush_clear\<close> is lines 278 to 280.
\<close>

definition flush_write ::
  "pylib \<Rightarrow> 'w bq_client \<Rightarrow> pipeline \<Rightarrow> 'w
     \<Rightarrow> (exn + bool) \<times> pipeline \<times> 'w \<times> effect list" where
  "flush_write lib client p w =
     (if buffer p = [] then (Inr False, p, w, [])
      else (case write_tables lib client (sink p) w (buffer p) 0 of
              (Inl e, s1, w1, fx) \<Rightarrow> (Inl e, p\<lparr>sink := s1\<rparr>, w1, fx)
            | (Inr total_written, s1, w1, fx) \<Rightarrow>
                (Inr True,
                 p\<lparr>sink := s1, total_processed := total_processed p + total_written\<rparr>,
                 w1, fx @ [LogInfo ''Buffer flushed''])))"

definition flush_clear :: "rat \<Rightarrow> pipeline \<Rightarrow> pipeline" where
  "flush_clear t_done p = p\<lparr>buffer := [], buffer_count := 0, last_flush_time := t_done\<rparr>"







text \<open>The clock readings one call of the handler makes.\<close>

record clock =
  utcnow :: int
  time_check :: rat
  time_flushed :: rat

text \<open>The two \<^verbatim>\<open>except\<close> clauses of \<^verbatim>\<open>_handle_message\<close>.\<close>

definition on_exception :: "exn \<Rightarrow> effect list" where
  "on_exception e =
     (if e = JSONDecodeError then [LogError ''Invalid JSON in CDC message'', Nack]
      else [LogError ''Error processing CDC message'', Nack])"

text \<open>Lines 238 to 242: \<^verbatim>\<open>message.ack()\<close>, then the flush when it is due.\<close>

definition ack_then_flush ::
  "pylib \<Rightarrow> 'w bq_client \<Rightarrow> clock \<Rightarrow> pipeline \<Rightarrow> 'w \<Rightarrow> pipeline \<times> 'w \<times> effect list" where
  "ack_then_flush lib client clk p w =
     (if should_flush p (time_check clk)
      then (case flush_all_buffers lib client (time_flushed clk) p w of
              (Some e, p1, w1, fx) \<Rightarrow> (p1, w1, Ack # fx @ on_exception e)
            | (None, p1, w1, fx) \<Rightarrow> (p1, w1, Ack # fx))
      else (p, w, [Ack]))"

text \<open>
  \<^verbatim>\<open>_handle_message\<close> on a message whose body is \<open>data\<close>. It returns the new pipeline
  state, the new world and the calls made; no exception leaves it, since the second
  \<^verbatim>\<open>except\<close> clause catches \<^verbatim>\<open>Exception\<close>.
\<close>

definition handle_message ::
  "pylib \<Rightarrow> 'w bq_client \<Rightarrow> clock \<Rightarrow> string \<Rightarrow> pipeline \<Rightarrow> 'w
     \<Rightarrow> pipeline \<times> 'w \<times> effect list" where
  "handle_message lib client clk data p w =
     (case json_loads lib data of
        Inl e \<Rightarrow> (p, w, on_exception e)
      | Inr payload \<Rightarrow>
     (case from_debezium payload of
        Inl e \<Rightarrow> (p, w, on_exception e)
      | Inr ev \<Rightarrow>
     (case to_bigquery_row lib (utcnow clk) ev of
        Inl e \<Rightarrow> (p, w, on_exception e)
      | Inr r \<Rightarrow>
          if \<not> hashable (table_name ev) then (p, w, on_exception TypeError)
          else ack_then_flush lib client clk (buffer_append (table_name ev) r p) w)))"

subsection \<open>CDC envelopes\<close>

text \<open>
  The Debezium envelope of the docstring of \<^verbatim>\<open>from_debezium\<close>:
  \<^verbatim>\<open>{"before": {...}, "after": {...}, "source": {"table": ...}, "op": ..., "ts_ms": ...}\<close>.
  A payload is a valid envelope when it is an object in which \<^verbatim>\<open>source\<close> is absent or
  an object, \<^verbatim>\<open>source.table\<close> is absent or a string, \<^verbatim>\<open>op\<close> is absent or a scalar,
  \<^verbatim>\<open>ts_ms\<close> is absent or an integer number of milliseconds within the years 1 to 9999,
  and \<^verbatim>\<open>before\<close> and \<^verbatim>\<open>after\<close> are each absent, null or an object.
\<close>

fun is_object :: "json \<Rightarrow> bool" where
  "is_object (JObject kvs) = True"
| "is_object v = False"

fun is_string :: "json \<Rightarrow> bool" where
  "is_string (JString s) = True"
| "is_string v = False"

fun is_image :: "json \<Rightarrow> bool" where
  "is_image JNull = True"
| "is_image (JObject kvs) = True"
| "is_image v = False"

fun is_timestamp :: "json \<Rightarrow> bool" where
  "is_timestamp (JInt ms) = (- 62135596800000 \<le> ms \<and> ms \<le> 253402300799999)"
| "is_timestamp v = False"

text \<open>The field \<^verbatim>\<open>source.table\<close> of an envelope, \<open>None\<close> when it is absent.\<close>

definition source_table :: "(string \<times> json) list \<Rightarrow> json option" where
  "source_table fs =
     (case dict_get fs ''source'' (JObject []) of
        JObject src \<Rightarrow> map_of src ''table''
      | _ \<Rightarrow> None)"

definition valid_envelope :: "json \<Rightarrow> bool" where
  "valid_envelope payload =
     (case payload of
        JObject fs \<Rightarrow>
          is_object (dict_get fs ''source'' (JObject []))
          \<and> (case source_table fs of None \<Rightarrow> True | Some t \<Rightarrow> is_string t)
          \<and> hashable (dict_get fs ''op'' (JString ''?''))
          \<and> is_timestamp (dict_get fs ''ts_ms'' (JInt 0))
          \<and> is_image (dict_get fs ''before'' JNull)
          \<and> is_image (dict_get fs ''after'' JNull)
      | _ \<Rightarrow> False)"

text \<open>The event \<^verbatim>\<open>from_debezium\<close> builds from the fields of an envelope.\<close>

definition envelope_event :: "(string \<times> json) list \<Rightarrow> cdc_event" where
  "envelope_event fs =
     \<lparr>table_name = (case source_table fs of None \<Rightarrow> JString ''unknown'' | Some t \<Rightarrow> t),
      operation = dict_get fs ''op'' (JString ''?''),
      before = dict_get fs ''before'' JNull,
      after = dict_get fs ''after'' JNull,
      timestamp_ms = dict_get fs ''ts_ms'' (JInt 0),
      source_db = ''ecommerce''\<rparr>"

text \<open>The rows buffered for a table: \<^verbatim>\<open>self._buffer.get(table_name, [])\<close>.\<close>

definition buffer_rows :: "json \<Rightarrow> (json \<times> row list) list \<Rightarrow> row list" where
  "buffer_rows tname b =
     (case find (\<lambda>kv. py_eq (fst kv) tname) b of None \<Rightarrow> [] | Some kv \<Rightarrow> snd kv)"

subsection \<open>Sample collaborators\<close>

text \<open>\<^verbatim>\<open>CDCRealtimePipeline.__init__\<close>; \<open>t0\<close> is the reading of \<^verbatim>\<open>time.time()\<close>.\<close>

definition new_pipeline :: "cdc_pipeline_config \<Rightarrow> rat \<Rightarrow> pipeline" where
  "new_pipeline cfg t0 =
     \<lparr>config = cfg,
      sink = \<lparr>sink_project_id = project_id cfg, sink_dataset_id = dataset_id cfg,
              table_schemas = []\<rparr>,
      buffer = [], buffer_count = 0, last_flush_time = t0, running = True,
      total_processed = 0\<rparr>"

text \<open>
  Concrete collaborators for the sample runs below: a runtime in which the body at hand
  decodes to \<open>res\<close>; a BigQuery client whose inserts report the per-row errors
  \<open>errors\<close>; and one whose inserts raise. Their world state counts the calls of
  \<^verbatim>\<open>insert_rows_json\<close>.
\<close>

definition lib_decoding :: "exn + json \<Rightarrow> pylib" where
  "lib_decoding res =
     \<lparr>json_loads = (\<lambda>data. res), float_repr = (\<lambda>q. ''0.0''), container_str = (\<lambda>v. ''[]'')\<rparr>"

definition client_answering :: "insert_error list \<Rightarrow> nat bq_client" where
  "client_answering errors =
     \<lparr>new_table = (\<lambda>table_id. None),
      create_table = (\<lambda>table_id w. (None, w)),
      insert_rows_json = (\<lambda>table_id rows w. (Inr errors, Suc w))\<rparr>"

definition client_unreachable :: "nat bq_client" where
  "client_unreachable =
     \<lparr>new_table = (\<lambda>table_id. None),
      create_table = (\<lambda>table_id w. (None, w)),
      insert_rows_json = (\<lambda>table_id rows w. (Inl (BackendError ''unreachable''), Suc w))\<rparr>"


definition sample_pipeline :: pipeline where
  "sample_pipeline = new_pipeline default_config 1700000000"

definition sample_clock :: clock where
  "sample_clock =
     \<lparr>utcnow = 1700000000500000, time_check = 1700000001, time_flushed = 1700000002\<rparr>"

text \<open>
  Sample envelopes, as \<^verbatim>\<open>json.loads\<close> returns them: an unknown operation code with no
  \<^verbatim>\<open>source\<close>; the same with the timestamp sent as text; an insert with neither image;
  an update whose \<^verbatim>\<open>after\<close> image is the empty object; and an insert stamped with
  \<^verbatim>\<open>ts_ms = 0\<close>. Then a row and a pipeline that has buffered it twice.
\<close>

definition envelope_unknown_op :: "(string \<times> json) list" where
  "envelope_unknown_op = [(''op'', JString ''x''), (''ts_ms'', JInt 1700000000000)]"

definition envelope_text_timestamp :: "(string \<times> json) list" where
  "envelope_text_timestamp = [(''op'', JString ''x''), (''ts_ms'', JString ''1700000000000'')]"

definition envelope_no_images :: "(string \<times> json) list" where
  "envelope_no_images =
     [(''source'', JObject [(''table'', JString ''orders'')]), (''op'', JString ''c''),
      (''ts_ms'', JInt 1700000000000)]"

definition envelope_empty_after :: "(string \<times> json) list" where
  "envelope_empty_after =
     [(''before'', JObject [(''id'', JInt 1)]), (''after'', JObject []),
      (''source'', JObject [(''table'', JString ''orders'')]), (''op'', JString ''u''),
      (''ts_ms'', JInt 1700000000000)]"

definition envelope_epoch :: "(string \<times> json) list" where
  "envelope_epoch =
     [(''before'', JNull), (''after'', JObject [(''id'', JInt 1)]),
      (''source'', JObject [(''table'', JString ''orders'')]), (''op'', JString ''c''),
      (''ts_ms'', JInt 0)]"

definition sample_row :: row where
  "sample_row = [(''cdc_table'', JString ''orders''), (''cdc_operation'', JString ''INSERT'')]"


definition loaded_pipeline :: pipeline where
  "loaded_pipeline =
     buffer_append (JString ''orders'') sample_row
       (buffer_append (JString ''orders'') sample_row sample_pipeline)"

section \<open>Properties\<close>

subsection \<open>Auxiliary facts\<close>

lemma py_eq_refl: "py_eq a a"
  by (cases a) (simp_all add: py_eq_def)

lemma buffer_rows_add: "buffer_rows t (buffer_add t r b) = buffer_rows t b @ [r]"
  by (induction b) (auto simp: buffer_rows_def py_eq_refl)

lemma round_half_even_of_int: "round_half_even (of_int k) = k"
  by (simp add: round_half_even_def Let_def)

lemma utcfromtimestamp_ms:
  "- 62135596800000 \<le> ms \<Longrightarrow> ms \<le> 253402300799999 \<Longrightarrow>
   utcfromtimestamp (of_int ms / 1000) = Inr (ms * 1000)"
proof -
  assume a: "- 62135596800000 \<le> ms" "ms \<le> 253402300799999"
  have "(of_int ms / 1000 * 1000000 :: rat) = of_int (ms * 1000)" by simp
  then have "round_half_even (of_int ms / 1000 * 1000000) = ms * 1000"
    using round_half_even_of_int by metis
  with a show ?thesis by (simp add: utcfromtimestamp_def Let_def)
qed

lemma isoformat_epoch: "isoformat 0 = ''1970-01-01T00:00:00''"
  by code_simp

lemma flatten_after_other:
  "\<forall>k. key \<noteq> ''col_'' @ k \<Longrightarrow> map_of (flatten_after lib items r) key = map_of r key"
  unfolding flatten_after_def
  by (induction items arbitrary: r) (simp_all add: update_conv')

lemma is_object_cases: "is_object v \<Longrightarrow> \<exists>kvs. v = JObject kvs"
  by (cases v) simp_all

lemma is_string_cases: "is_string v \<Longrightarrow> \<exists>s. v = JString s"
  by (cases v) simp_all

lemma is_image_cases: "is_image v \<Longrightarrow> v = JNull \<or> (\<exists>kvs. v = JObject kvs)"
  by (cases v) simp_all

lemma is_timestamp_cases:
  "is_timestamp v \<Longrightarrow> \<exists>ms. v = JInt ms \<and> - 62135596800000 \<le> ms \<and> ms \<le> 253402300799999"
  by (cases v) simp_all

lemma valid_envelope_parse:
  assumes "valid_envelope (JObject fs)"
  shows "from_debezium (JObject fs) = Inr (envelope_event fs)"
proof -
  from assms have "is_object (dict_get fs ''source'' (JObject []))"
    by (simp add: valid_envelope_def)
  then obtain src where src: "dict_get fs ''source'' (JObject []) = JObject src"
    using is_object_cases by blast
  have "dict_get src ''table'' (JString ''unknown'') =
          (case map_of src ''table'' of None \<Rightarrow> JString ''unknown'' | Some t \<Rightarrow> t)"
    by (simp add: dict_get_def)
  with src show ?thesis
    by (simp add: from_debezium_def source_table_def envelope_event_def)
qed

lemma valid_envelope_table:
  assumes "valid_envelope (JObject fs)"
  shows "\<exists>t. table_name (envelope_event fs) = JString t"
proof (cases "source_table fs")
  case None
  then show ?thesis by (simp add: envelope_event_def)
next
  case (Some t)
  with assms have "is_string t" by (simp add: valid_envelope_def)
  with Some show ?thesis using is_string_cases by (auto simp: envelope_event_def)
qed

lemma valid_envelope_fields:
  assumes "valid_envelope (JObject fs)"
  shows "hashable (operation (envelope_event fs))"
    and "is_timestamp (timestamp_ms (envelope_event fs))"
    and "is_image (before (envelope_event fs))"
    and "is_image (after (envelope_event fs))"
  using assms by (simp_all add: valid_envelope_def envelope_event_def)

lemma operation_label_hashable:
  "hashable (operation ev) \<Longrightarrow> \<exists>l. operation_label ev = Inr l"
  by (cases "operation ev") (simp_all add: operation_label_def split: option.splits)

lemma operation_label_unknown:
  assumes "hashable (operation ev)"
    and "operation ev \<notin> {JString ''c'', JString ''u'', JString ''d'', JString ''r''}"
  shows "operation_label ev = Inr ''UNKNOWN''"
  using assms by (cases "operation ev") (simp_all add: operation_label_def)

lemma cdc_timestamp_int:
  assumes "timestamp_ms ev = JInt ms" "- 62135596800000 \<le> ms" "ms \<le> 253402300799999"
  shows "cdc_timestamp ev = Inr (isoformat (ms * 1000))"
  using assms by (simp add: cdc_timestamp_def utcfromtimestamp_ms)

lemma to_bigquery_row_succeeds:
  assumes "operation_label ev = Inr l" and "cdc_timestamp ev = Inr ts"
    and "is_image (after ev)"
  shows "\<exists>r. to_bigquery_row lib now ev = Inr r"
  using assms is_image_cases [of "after ev"]
  by (auto simp: to_bigquery_row_def Let_def)

lemma to_bigquery_row_shape:
  assumes "to_bigquery_row lib now ev = Inr r"
  shows "\<exists>l ts. operation_label ev = Inr l \<and> cdc_timestamp ev = Inr ts
           \<and> (r = audit_columns lib now ev l ts
                \<or> (\<exists>items. after ev = JObject items
                       \<and> r = flatten_after lib items (audit_columns lib now ev l ts)))"
proof -
  from assms obtain l where l: "operation_label ev = Inr l"
    by (cases "operation_label ev") (simp_all add: to_bigquery_row_def)
  from assms l obtain ts where ts: "cdc_timestamp ev = Inr ts"
    by (cases "cdc_timestamp ev") (simp_all add: to_bigquery_row_def)
  show ?thesis
  proof (cases "truthy (after ev)")
    case False
    with assms l ts have "r = audit_columns lib now ev l ts"
      by (simp add: to_bigquery_row_def audit_columns_def)
    with l ts show ?thesis by blast
  next
    case True
    with assms l ts obtain items where "after ev = JObject items"
      by (cases "after ev") (simp_all add: to_bigquery_row_def)
    moreover from this True assms l ts
    have "r = flatten_after lib items (audit_columns lib now ev l ts)"
      by (simp add: to_bigquery_row_def audit_columns_def)
    ultimately show ?thesis using l ts by blast
  qed
qed

lemma to_bigquery_row_columns:
  assumes "to_bigquery_row lib now ev = Inr r"
    and "\<forall>k. key \<noteq> ''col_'' @ k"
  shows "\<exists>l ts. operation_label ev = Inr l \<and> cdc_timestamp ev = Inr ts
           \<and> map_of r key = map_of (audit_columns lib now ev l ts) key"
  using to_bigquery_row_shape [OF assms(1)] flatten_after_other [OF assms(2)]
  by auto

lemma valid_envelope_projects:
  assumes "valid_envelope (JObject fs)"
  shows "\<exists>r. to_bigquery_row lib now (envelope_event fs) = Inr r"
proof -
  note f = valid_envelope_fields [OF assms]
  from f(1) obtain l where l: "operation_label (envelope_event fs) = Inr l"
    using operation_label_hashable by blast
  from f(2) obtain ms where "timestamp_ms (envelope_event fs) = JInt ms"
      "- 62135596800000 \<le> ms" "ms \<le> 253402300799999"
    using is_timestamp_cases by blast
  then have "cdc_timestamp (envelope_event fs) = Inr (isoformat (ms * 1000))"
    by (rule cdc_timestamp_int)
  with l f(4) show ?thesis
    using to_bigquery_row_succeeds by blast
qed

lemma handle_message_valid:
  assumes "json_loads lib data = Inr (JObject fs)"
    and "valid_envelope (JObject fs)"
    and "to_bigquery_row lib (utcnow clk) (envelope_event fs) = Inr r"
  shows "handle_message lib client clk data p w =
           ack_then_flush lib client clk
             (buffer_append (table_name (envelope_event fs)) r p) w"
proof -
  from valid_envelope_table [OF assms(2)] have "hashable (table_name (envelope_event fs))"
    by auto
  with assms(1,3) valid_envelope_parse [OF assms(2)] show ?thesis
    by (simp add: handle_message_def)
qed

lemma ack_then_flush_acks:
  "\<exists>p' w' fx. ack_then_flush lib client clk p w = (p', w', Ack # fx)"
  by (cases "flush_all_buffers lib client (time_flushed clk) p w")
     (auto simp: ack_then_flush_def split: option.splits)

lemma dumps_object_nonempty: "dumps lib (JObject kvs) \<noteq> []"
  by simp

lemma update_commute:
  "k \<noteq> k' \<Longrightarrow> k \<in> fst ` set ps \<Longrightarrow>
   AList.update k v (AList.update k' v' ps) = AList.update k' v' (AList.update k v ps)"
  by (induction ps) auto

lemma flatten_after_update:
  assumes "\<forall>j. k \<noteq> ''col_'' @ j" and "k \<in> fst ` set r"
  shows "AList.update k v (flatten_after lib items r) =
           flatten_after lib items (AList.update k v r)"
  using assms(2)
proof (induction items arbitrary: r)
  case Nil
  then show ?case by (simp add: flatten_after_def)
next
  case (Cons kv items)
  let ?r' = "AList.update (''col_'' @ fst kv)
               (if snd kv \<noteq> JNull then JString (py_str lib (snd kv)) else JNull) r"
  from Cons.prems have in': "k \<in> fst ` set ?r'"
    by (simp add: dom_update)
  have "AList.update k v (flatten_after lib (kv # items) r) =
          AList.update k v (flatten_after lib items ?r')"
    by (simp add: flatten_after_def)
  also have "\<dots> = flatten_after lib items (AList.update k v ?r')"
    by (rule Cons.IH [OF in'])
  also have "AList.update k v ?r' =
               AList.update (''col_'' @ fst kv)
                 (if snd kv \<noteq> JNull then JString (py_str lib (snd kv)) else JNull)
                 (AList.update k v r)"
  proof -
    from assms(1) have ne: "k \<noteq> ''col_'' @ fst kv" by blast
    from Cons.prems show ?thesis by (rule update_commute [OF ne])
  qed
  finally show ?case by (simp add: flatten_after_def)
qed

lemma audit_columns_now:
  "audit_columns lib now1 ev l ts =
     AList.update ''ingested_at'' (JString (isoformat now1)) (audit_columns lib now2 ev l ts)"
  by (simp add: audit_columns_def)

lemma ingested_at_in_audit_columns:
  "''ingested_at'' \<in> fst ` set (audit_columns lib now ev l ts)"
  by (simp add: audit_columns_def)

lemma flush_all_buffers_parts:
  "flush_all_buffers lib client t_done p w =
     (case flush_write lib client p w of
        (Inl e, p1, w1, fx) \<Rightarrow> (Some e, p1, w1, fx)
      | (Inr False, p1, w1, fx) \<Rightarrow> (None, p1, w1, fx)
      | (Inr True, p1, w1, fx) \<Rightarrow> (None, flush_clear t_done p1, w1, fx))"
  by (cases "write_tables lib client (sink p) w (buffer p) 0")
     (auto simp: flush_all_buffers_def flush_write_def flush_clear_def split: sum.splits)








lemma from_debezium_error: "from_debezium payload = Inl e \<Longrightarrow> e = AttributeError"
proof (cases payload)
  case (JObject fs)
  assume a: "from_debezium payload = Inl e"
  show ?thesis
  proof (cases "dict_get fs ''source'' (JObject [])")
    case (JObject src)
    with a \<open>payload = JObject fs\<close> show ?thesis by (simp add: from_debezium_def)
  qed (use a \<open>payload = JObject fs\<close> in \<open>simp_all add: from_debezium_def\<close>)
qed (simp_all add: from_debezium_def)

lemma operation_label_error: "operation_label ev = Inl e \<Longrightarrow> e = TypeError"
  by (cases "operation ev") (simp_all add: operation_label_def split: option.splits)

lemma cdc_timestamp_error: "cdc_timestamp ev = Inl e \<Longrightarrow> e = TypeError \<or> e = ValueError"
  by (auto simp: cdc_timestamp_def utcfromtimestamp_def Let_def
           split: option.splits if_splits)

lemma to_bigquery_row_error:
  assumes "to_bigquery_row lib now ev = Inl e"
  shows "e \<noteq> JSONDecodeError"
proof (cases "operation_label ev")
  case (Inl e1)
  with assms operation_label_error [OF Inl] show ?thesis
    by (simp add: to_bigquery_row_def)
next
  case l: (Inr l)
  show ?thesis
  proof (cases "cdc_timestamp ev")
    case (Inl e1)
    with assms l cdc_timestamp_error [OF Inl] show ?thesis
      by (auto simp: to_bigquery_row_def)
  next
    case (Inr ts)
    with assms l show ?thesis
      by (cases "after ev") (auto simp: to_bigquery_row_def split: if_splits)
  qed
qed

lemma handle_message_rejects:
  assumes "json_loads lib data = Inr payload"
    and "(\<exists>e. from_debezium payload = Inl e)
         \<or> (\<exists>ev. from_debezium payload = Inr ev
                \<and> ((\<exists>e. to_bigquery_row lib (utcnow clk) ev = Inl e)
                    \<or> \<not> hashable (table_name ev)))"
  shows "handle_message lib client clk data p w =
           (p, w, [LogError ''Error processing CDC message'', Nack])"
proof -
  from assms(2) consider
      (parse) e where "from_debezium payload = Inl e"
    | (project) ev e where "from_debezium payload = Inr ev"
        "to_bigquery_row lib (utcnow clk) ev = Inl e"
    | (key) ev r where "from_debezium payload = Inr ev"
        "to_bigquery_row lib (utcnow clk) ev = Inr r" "\<not> hashable (table_name ev)"
    by (metis sum.exhaust)
  then show ?thesis
  proof cases
    case parse
    with assms(1) from_debezium_error [OF parse] show ?thesis
      by (simp add: handle_message_def on_exception_def)
  next
    case project
    with assms(1) to_bigquery_row_error [OF project(2)] show ?thesis
      by (simp add: handle_message_def on_exception_def)
  next
    case key
    with assms(1) show ?thesis
      by (simp add: handle_message_def on_exception_def)
  qed
qed

lemma to_bigquery_row_after_object:
  assumes "operation_label ev = Inr l" and "cdc_timestamp ev = Inr ts"
    and "\<not> truthy (after ev) \<or> is_object (after ev)"
  shows "\<exists>r. to_bigquery_row lib now ev = Inr r"
  using assms is_object_cases [of "after ev"]
  by (auto simp: to_bigquery_row_def)

lemma valid_unknown_operation_buffered:
  assumes "json_loads lib data = Inr (JObject fs)"
    and "valid_envelope (JObject fs)"
    and "dict_get fs ''op'' (JString ''?'')
           \<notin> {JString ''c'', JString ''u'', JString ''d'', JString ''r''}"
  shows "\<exists>r p' w' fx.
           from_debezium (JObject fs) = Inr (envelope_event fs)
         \<and> table_name (envelope_event fs) =
               (case source_table fs of None \<Rightarrow> JString ''unknown'' | Some t \<Rightarrow> t)
         \<and> operation_label (envelope_event fs) = Inr ''UNKNOWN''
         \<and> to_bigquery_row lib (utcnow clk) (envelope_event fs) = Inr r
         \<and> map_of r ''cdc_operation'' = Some (JString ''UNKNOWN'')
         \<and> buffer_rows (table_name (envelope_event fs))
               (buffer (buffer_append (table_name (envelope_event fs)) r p)) =
             buffer_rows (table_name (envelope_event fs)) (buffer p) @ [r]
         \<and> handle_message lib client clk data p w =
             ack_then_flush lib client clk
               (buffer_append (table_name (envelope_event fs)) r p) w
         \<and> handle_message lib client clk data p w = (p', w', Ack # fx)"
proof -
  let ?ev = "envelope_event fs"
  have parse: "from_debezium (JObject fs) = Inr ?ev"
    by (rule valid_envelope_parse [OF assms(2)])
  have tn: "table_name ?ev = (case source_table fs of None \<Rightarrow> JString ''unknown'' | Some t \<Rightarrow> t)"
    by (simp add: envelope_event_def)
  have "operation ?ev = dict_get fs ''op'' (JString ''?'')"
    by (simp add: envelope_event_def)
  with assms(3) valid_envelope_fields(1) [OF assms(2)]
  have l: "operation_label ?ev = Inr ''UNKNOWN''"
    by (simp add: operation_label_unknown)
  from valid_envelope_projects [OF assms(2)]
  obtain r where r: "to_bigquery_row lib (utcnow clk) ?ev = Inr r"
    by blast
  have key: "\<forall>k. ''cdc_operation'' \<noteq> ''col_'' @ k" by simp
  from to_bigquery_row_columns [OF r key] l
  have col: "map_of r ''cdc_operation'' = Some (JString ''UNKNOWN'')"
    by (auto simp: audit_columns_def)
  have rows: "buffer_rows (table_name ?ev) (buffer (buffer_append (table_name ?ev) r p)) =
                buffer_rows (table_name ?ev) (buffer p) @ [r]"
    by (simp add: buffer_append_def buffer_rows_add)
  have h: "handle_message lib client clk data p w =
             ack_then_flush lib client clk (buffer_append (table_name ?ev) r p) w"
    by (rule handle_message_valid [OF assms(1,2) r])
  from ack_then_flush_acks [of lib client clk "buffer_append (table_name ?ev) r p" w]
  obtain p' w' fx where
    "ack_then_flush lib client clk (buffer_append (table_name ?ev) r p) w = (p', w', Ack # fx)"
    by blast
  with h have acked: "handle_message lib client clk data p w = (p', w', Ack # fx)"
    by simp
  show ?thesis
    using parse tn l r col rows h acked
    by (intro exI [of _ r] exI [of _ p'] exI [of _ w'] exI [of _ fx] conjI)
qed

subsection \<open>The flush decision\<close>

text \<open>
  C2. For every buffered count and every elapsed time since the last flush,
  \<^verbatim>\<open>_should_flush\<close> answers true exactly when the buffered count has reached the batch
  size or the elapsed time has reached the flush interval. Both bounds are inclusive: it
  answers true when the count equals the batch size, and when the elapsed time equals the
  flush interval.
\<close>

theorem should_flush_iff:
  "(should_flush p now \<longleftrightarrow>
      buffer_count p \<ge> batch_size (config p)
      \<or> now - last_flush_time p \<ge> flush_interval_sec (config p))
   \<and> should_flush (p\<lparr>buffer_count := batch_size (config p)\<rparr>) now
   \<and> should_flush p (last_flush_time p + flush_interval_sec (config p))"
  by (simp add: should_flush_def)

subsection \<open>Appends and flushes\<close>




subsection \<open>Messages that are not JSON\<close>

text \<open>
  C1 (amended). For every inbound message whose body is not valid JSON, the handler
  negatively acknowledges the message (\<^verbatim>\<open>message.nack()\<close>, which asks Pub/Sub to
  deliver it again), logs the error \<^verbatim>\<open>Invalid JSON in CDC message\<close>, and leaves the
  pipeline state and the world as they were, so no row is buffered; it keeps no count of
  parse errors. The handler returns normally: both \<^verbatim>\<open>except\<close> clauses end in
  \<^verbatim>\<open>nack\<close>, and \<open>handle_message\<close> has no exceptional result.
\<close>

theorem invalid_json_is_nacked:
  assumes "json_loads lib data = Inl JSONDecodeError"
  shows "handle_message lib client clk data p w =
           (p, w, [LogError ''Invalid JSON in CDC message'', Nack])"
  using assms by (simp add: handle_message_def on_exception_def)

theorem invalid_json_is_nacked_witness:
  "json_loads (lib_decoding (Inl JSONDecodeError)) ''{not json'' = Inl JSONDecodeError
   \<and> handle_message (lib_decoding (Inl JSONDecodeError)) (client_answering []) sample_clock
         ''{not json'' sample_pipeline (0::nat) =
       (sample_pipeline, 0, [LogError ''Invalid JSON in CDC message'', Nack])"
proof -
  have h: "json_loads (lib_decoding (Inl JSONDecodeError)) ''{not json'' = Inl JSONDecodeError"
    by (simp add: lib_decoding_def)
  from invalid_json_is_nacked [OF h] h show ?thesis by simp
qed

text \<open>
  The specification asks for an acknowledgement. On a body that does not decode, the
  only call made on the message is \<^verbatim>\<open>nack\<close>.
\<close>

theorem invalid_json_not_acknowledged:
  "json_loads (lib_decoding (Inl JSONDecodeError)) ''{not json'' = Inl JSONDecodeError
   \<and> snd (snd (handle_message (lib_decoding (Inl JSONDecodeError)) (client_answering [])
               sample_clock ''{not json'' sample_pipeline (0::nat))) =
       [LogError ''Invalid JSON in CDC message'', Nack]
   \<and> Ack \<notin> set (snd (snd (handle_message (lib_decoding (Inl JSONDecodeError))
                 (client_answering []) sample_clock ''{not json'' sample_pipeline (0::nat))))"
  by (simp add: handle_message_def on_exception_def lib_decoding_def)

subsection \<open>Unknown operation codes\<close>

text \<open>
  C4 (amended). For every message whose body decodes to a valid CDC envelope with an
  operation code outside \<^verbatim>\<open>c\<close>, \<^verbatim>\<open>u\<close>, \<^verbatim>\<open>d\<close>, \<^verbatim>\<open>r\<close> (or with none),
  parsing succeeds, the table name is \<^verbatim>\<open>source.table\<close>, or \<^verbatim>\<open>"unknown"\<close> when that
  field is absent, the operation label is \<^verbatim>\<open>UNKNOWN\<close>, projection succeeds, the row is
  appended at the end of the table's buffer, and the message is acknowledged before the
  flush check runs. Bodies that are not JSON are not the only failures: every body that
  decodes to JSON on which \<^verbatim>\<open>from_debezium\<close> or \<^verbatim>\<open>to_bigquery_row\<close> raises, or whose
  table name is unhashable, is caught by the second \<^verbatim>\<open>except\<close> clause, which logs
  \<^verbatim>\<open>Error processing CDC message\<close> and nacks the message, and nothing is buffered.
\<close>

theorem unknown_operation_outcome:
  assumes "json_loads lib data = Inr payload"
  shows "(\<forall>fs. payload = JObject fs \<longrightarrow> valid_envelope payload \<longrightarrow>
            dict_get fs ''op'' (JString ''?'')
              \<notin> {JString ''c'', JString ''u'', JString ''d'', JString ''r''} \<longrightarrow>
            (\<exists>r p' w' fx.
               from_debezium payload = Inr (envelope_event fs)
             \<and> table_name (envelope_event fs) =
                 (case source_table fs of None \<Rightarrow> JString ''unknown'' | Some t \<Rightarrow> t)
             \<and> operation_label (envelope_event fs) = Inr ''UNKNOWN''
             \<and> to_bigquery_row lib (utcnow clk) (envelope_event fs) = Inr r
             \<and> map_of r ''cdc_operation'' = Some (JString ''UNKNOWN'')
             \<and> buffer_rows (table_name (envelope_event fs))
                   (buffer (buffer_append (table_name (envelope_event fs)) r p)) =
                 buffer_rows (table_name (envelope_event fs)) (buffer p) @ [r]
             \<and> handle_message lib client clk data p w =
                 ack_then_flush lib client clk
                   (buffer_append (table_name (envelope_event fs)) r p) w
             \<and> handle_message lib client clk data p w = (p', w', Ack # fx)))
       \<and> ((\<exists>e. from_debezium payload = Inl e)
            \<or> (\<exists>ev. from_debezium payload = Inr ev
                   \<and> ((\<exists>e. to_bigquery_row lib (utcnow clk) ev = Inl e)
                       \<or> \<not> hashable (table_name ev)))
          \<longrightarrow> handle_message lib client clk data p w =
                (p, w, [LogError ''Error processing CDC message'', Nack]))"
proof (intro conjI allI impI)
  fix fs
  assume eq: "payload = JObject fs" and v: "valid_envelope payload"
    and op: "dict_get fs ''op'' (JString ''?'')
           \<notin> {JString ''c'', JString ''u'', JString ''d'', JString ''r''}"
  from assms eq have l: "json_loads lib data = Inr (JObject fs)" by simp
  from v eq have v': "valid_envelope (JObject fs)" by simp
  show "\<exists>r p' w' fx.
               from_debezium payload = Inr (envelope_event fs)
             \<and> table_name (envelope_event fs) =
                 (case source_table fs of None \<Rightarrow> JString ''unknown'' | Some t \<Rightarrow> t)
             \<and> operation_label (envelope_event fs) = Inr ''UNKNOWN''
             \<and> to_bigquery_row lib (utcnow clk) (envelope_event fs) = Inr r
             \<and> map_of r ''cdc_operation'' = Some (JString ''UNKNOWN'')
             \<and> buffer_rows (table_name (envelope_event fs))
                   (buffer (buffer_append (table_name (envelope_event fs)) r p)) =
                 buffer_rows (table_name (envelope_event fs)) (buffer p) @ [r]
             \<and> handle_message lib client clk data p w =
                 ack_then_flush lib client clk
                   (buffer_append (table_name (envelope_event fs)) r p) w
             \<and> handle_message lib client clk data p w = (p', w', Ack # fx)"
    unfolding eq by (rule valid_unknown_operation_buffered [OF l v' op])
next
  assume "(\<exists>e. from_debezium payload = Inl e)
            \<or> (\<exists>ev. from_debezium payload = Inr ev
                   \<and> ((\<exists>e. to_bigquery_row lib (utcnow clk) ev = Inl e)
                       \<or> \<not> hashable (table_name ev)))"
  with assms show "handle_message lib client clk data p w =
                (p, w, [LogError ''Error processing CDC message'', Nack])"
    by (rule handle_message_rejects)
qed

theorem unknown_operation_outcome_witness:
  "json_loads (lib_decoding (Inr (JObject envelope_unknown_op))) ''m1'' =
     Inr (JObject envelope_unknown_op)
   \<and> valid_envelope (JObject envelope_unknown_op)
   \<and> dict_get envelope_unknown_op ''op'' (JString ''?'')
         \<notin> {JString ''c'', JString ''u'', JString ''d'', JString ''r''}
   \<and> table_name (envelope_event envelope_unknown_op) = JString ''unknown''
   \<and> (\<exists>r p' w' fx.
         to_bigquery_row (lib_decoding (Inr (JObject envelope_unknown_op)))
           (utcnow sample_clock) (envelope_event envelope_unknown_op) = Inr r
       \<and> map_of r ''cdc_operation'' = Some (JString ''UNKNOWN'')
       \<and> buffer_rows (JString ''unknown'')
            (buffer (buffer_append (JString ''unknown'') r sample_pipeline)) = [r]
       \<and> handle_message (lib_decoding (Inr (JObject envelope_unknown_op))) (client_answering [])
            sample_clock ''m1'' sample_pipeline (0::nat) = (p', w', Ack # fx))
   \<and> json_loads (lib_decoding (Inr (JObject envelope_text_timestamp))) ''m2'' =
       Inr (JObject envelope_text_timestamp)
   \<and> from_debezium (JObject envelope_text_timestamp) =
       Inr (envelope_event envelope_text_timestamp)
   \<and> to_bigquery_row (lib_decoding (Inr (JObject envelope_text_timestamp)))
        (utcnow sample_clock) (envelope_event envelope_text_timestamp) = Inl TypeError
   \<and> handle_message (lib_decoding (Inr (JObject envelope_text_timestamp))) (client_answering [])
        sample_clock ''m2'' sample_pipeline (0::nat) =
       (sample_pipeline, 0, [LogError ''Error processing CDC message'', Nack])"
proof -
  let ?libA = "lib_decoding (Inr (JObject envelope_unknown_op))"
  let ?libB = "lib_decoding (Inr (JObject envelope_text_timestamp))"
  have h1: "json_loads ?libA ''m1'' = Inr (JObject envelope_unknown_op)"
    by (simp add: lib_decoding_def)
  have h2: "valid_envelope (JObject envelope_unknown_op)"
    by code_simp
  have h3: "dict_get envelope_unknown_op ''op'' (JString ''?'')
              \<notin> {JString ''c'', JString ''u'', JString ''d'', JString ''r''}"
    by (simp add: envelope_unknown_op_def dict_get_def)
  have tn: "table_name (envelope_event envelope_unknown_op) = JString ''unknown''"
    by code_simp
  have b0: "buffer_rows (JString ''unknown'') (buffer sample_pipeline) = []"
    by code_simp
  note A = unknown_operation_outcome [OF h1, where clk = sample_clock
      and client = "client_answering []" and p = sample_pipeline and w = "0::nat",
      THEN conjunct1, rule_format, OF refl h2 h3]
  from A obtain r p' w' fx where
      "to_bigquery_row ?libA (utcnow sample_clock) (envelope_event envelope_unknown_op) = Inr r"
      "map_of r ''cdc_operation'' = Some (JString ''UNKNOWN'')"
      "buffer_rows (table_name (envelope_event envelope_unknown_op))
         (buffer (buffer_append (table_name (envelope_event envelope_unknown_op)) r
            sample_pipeline)) =
       buffer_rows (table_name (envelope_event envelope_unknown_op)) (buffer sample_pipeline) @ [r]"
      "handle_message ?libA (client_answering []) sample_clock ''m1'' sample_pipeline (0::nat) =
         (p', w', Ack # fx)"
    by (elim exE conjE)
  with tn b0 have accepted: "\<exists>r p' w' fx.
         to_bigquery_row ?libA (utcnow sample_clock) (envelope_event envelope_unknown_op) = Inr r
       \<and> map_of r ''cdc_operation'' = Some (JString ''UNKNOWN'')
       \<and> buffer_rows (JString ''unknown'')
            (buffer (buffer_append (JString ''unknown'') r sample_pipeline)) = [r]
       \<and> handle_message ?libA (client_answering [])
            sample_clock ''m1'' sample_pipeline (0::nat) = (p', w', Ack # fx)"
    by auto
  have g1: "json_loads ?libB ''m2'' = Inr (JObject envelope_text_timestamp)"
    by (simp add: lib_decoding_def)
  have g2: "from_debezium (JObject envelope_text_timestamp) =
              Inr (envelope_event envelope_text_timestamp)"
    by code_simp
  have g3: "to_bigquery_row ?libB (utcnow sample_clock)
              (envelope_event envelope_text_timestamp) = Inl TypeError"
    by code_simp
  from g2 g3 have g4: "(\<exists>e. from_debezium (JObject envelope_text_timestamp) = Inl e)
      \<or> (\<exists>ev. from_debezium (JObject envelope_text_timestamp) = Inr ev
             \<and> ((\<exists>e. to_bigquery_row ?libB (utcnow sample_clock) ev = Inl e)
                 \<or> \<not> hashable (table_name ev)))"
    by blast
  note B = unknown_operation_outcome [OF g1, where clk = sample_clock
      and client = "client_answering []" and p = sample_pipeline and w = "0::nat",
      THEN conjunct2, rule_format, OF g4]
  from h1 h2 h3 tn accepted g1 g2 g3 B show ?thesis
    by (intro conjI)
qed

text \<open>
  A valid JSON body with the operation code \<^verbatim>\<open>x\<close> and the timestamp sent as a string:
  \<^verbatim>\<open>self.timestamp_ms / 1000\<close> raises \<^verbatim>\<open>TypeError\<close>, the message is nacked and nothing
  is buffered.
\<close>

theorem text_timestamp_is_nacked:
  "json_loads (lib_decoding (Inr (JObject envelope_text_timestamp))) ''m2'' =
     Inr (JObject envelope_text_timestamp)
   \<and> dict_get envelope_text_timestamp ''op'' (JString ''?'') = JString ''x''
   \<and> handle_message (lib_decoding (Inr (JObject envelope_text_timestamp))) (client_answering [])
         sample_clock ''m2'' sample_pipeline (0::nat) =
       (sample_pipeline, 0, [LogError ''Error processing CDC message'', Nack])"
  by code_simp

subsection \<open>The zero timestamp\<close>

text \<open>
  C5 (amended). For every change record whose millisecond timestamp equals 0 (the integer
  0, and also \<^verbatim>\<open>0.0\<close> or \<^verbatim>\<open>False\<close>, which Python divides alike), whose operation
  code is hashable and whose \<^verbatim>\<open>after\<close> image is falsy or an object, so that nothing
  else in the projection raises, row projection returns a row: the record is not dropped.
  The row has the epoch, \<^verbatim>\<open>1970-01-01T00:00:00\<close>, in the event-time column
  \<^verbatim>\<open>cdc_timestamp\<close>; the ingestion time is in the column \<^verbatim>\<open>ingested_at\<close> only.
\<close>

theorem zero_timestamp_is_epoch:
  assumes "num_val (timestamp_ms ev) = Some 0"
    and "hashable (operation ev)"
    and "\<not> truthy (after ev) \<or> is_object (after ev)"
  shows "\<exists>r. to_bigquery_row lib now ev = Inr r
           \<and> cdc_timestamp ev = Inr ''1970-01-01T00:00:00''
           \<and> map_of r ''cdc_timestamp'' = Some (JString ''1970-01-01T00:00:00'')
           \<and> map_of r ''ingested_at'' = Some (JString (isoformat now))"
proof -
  have ts: "cdc_timestamp ev = Inr ''1970-01-01T00:00:00''"
    using assms(1) isoformat_epoch
    by (simp add: cdc_timestamp_def utcfromtimestamp_def round_half_even_def)
  from assms(2) obtain l where l: "operation_label ev = Inr l"
    using operation_label_hashable by blast
  from to_bigquery_row_after_object [OF l ts assms(3)]
  obtain r where r: "to_bigquery_row lib now ev = Inr r"
    by blast
  have k1: "\<forall>k. ''cdc_timestamp'' \<noteq> ''col_'' @ k" by simp
  have k2: "\<forall>k. ''ingested_at'' \<noteq> ''col_'' @ k" by simp
  from to_bigquery_row_columns [OF r k1] ts
  have c1: "map_of r ''cdc_timestamp'' = Some (JString ''1970-01-01T00:00:00'')"
    by (auto simp: audit_columns_def)
  from to_bigquery_row_columns [OF r k2]
  have c2: "map_of r ''ingested_at'' = Some (JString (isoformat now))"
    by (auto simp: audit_columns_def)
  from r ts c1 c2 show ?thesis by blast
qed

theorem zero_timestamp_is_epoch_witness:
  "num_val (timestamp_ms (envelope_event envelope_epoch)) = Some 0
   \<and> hashable (operation (envelope_event envelope_epoch))
   \<and> is_object (after (envelope_event envelope_epoch))
   \<and> (\<exists>r. to_bigquery_row (lib_decoding (Inr (JObject envelope_epoch))) 1700000000500000
              (envelope_event envelope_epoch) = Inr r
          \<and> map_of r ''cdc_timestamp'' = Some (JString ''1970-01-01T00:00:00'')
          \<and> map_of r ''ingested_at'' = Some (JString ''2023-11-14T22:13:20.500000''))"
proof -
  let ?lib = "lib_decoding (Inr (JObject envelope_epoch))"
  have h1: "num_val (timestamp_ms (envelope_event envelope_epoch)) = Some 0"
    by code_simp
  have h2: "hashable (operation (envelope_event envelope_epoch))"
    by code_simp
  have h3: "is_object (after (envelope_event envelope_epoch))"
    by code_simp
  then have h3': "\<not> truthy (after (envelope_event envelope_epoch))
                  \<or> is_object (after (envelope_event envelope_epoch))" by simp
  have iso: "isoformat 1700000000500000 = ''2023-11-14T22:13:20.500000''"
    by code_simp
  from zero_timestamp_is_epoch [OF h1 h2 h3', of ?lib 1700000000500000] iso
  have "\<exists>r. to_bigquery_row ?lib 1700000000500000 (envelope_event envelope_epoch) = Inr r
          \<and> map_of r ''cdc_timestamp'' = Some (JString ''1970-01-01T00:00:00'')
          \<and> map_of r ''ingested_at'' = Some (JString ''2023-11-14T22:13:20.500000'')"
    by auto
  with h1 h2 h3 show ?thesis by (intro conjI)
qed

text \<open>
  The specification asks for the ingestion time in the event-time column. For an event
  stamped 0 and projected at 2023-11-14T22:13:20.5, the column holds the epoch.
\<close>

theorem zero_timestamp_not_substituted:
  "timestamp_ms (envelope_event envelope_epoch) = JInt 0
   \<and> \<not> isl (to_bigquery_row (lib_decoding (Inr (JObject envelope_epoch))) 1700000000500000
               (envelope_event envelope_epoch))
   \<and> map_of (projr (to_bigquery_row (lib_decoding (Inr (JObject envelope_epoch)))
                      1700000000500000 (envelope_event envelope_epoch))) ''cdc_timestamp'' =
       Some (JString ''1970-01-01T00:00:00'')
   \<and> map_of (projr (to_bigquery_row (lib_decoding (Inr (JObject envelope_epoch)))
                      1700000000500000 (envelope_event envelope_epoch))) ''ingested_at'' =
       Some (JString ''2023-11-14T22:13:20.500000'')"
  by code_simp

subsection \<open>Envelopes with neither image\<close>

text \<open>
  C6 (amended). For every message that decodes to a valid CDC envelope in which both
  \<^verbatim>\<open>before\<close> and \<^verbatim>\<open>after\<close> are absent or null, parsing succeeds with both fields
  \<^verbatim>\<open>None\<close>, projection yields a row whose \<^verbatim>\<open>before_data\<close> and \<^verbatim>\<open>after_data\<close> are null
  and whose \<^verbatim>\<open>raw_payload\<close> is \<^verbatim>\<open>{}\<close>, the row is appended to the table's buffer and
  the message is acknowledged. A parsed change record need not have an image.
\<close>

theorem envelope_without_images_is_buffered:
  assumes "json_loads lib data = Inr (JObject fs)"
    and "valid_envelope (JObject fs)"
    and "dict_get fs ''before'' JNull = JNull"
    and "dict_get fs ''after'' JNull = JNull"
  shows "\<exists>r p' w' fx.
           from_debezium (JObject fs) = Inr (envelope_event fs)
         \<and> before (envelope_event fs) = JNull
         \<and> after (envelope_event fs) = JNull
         \<and> to_bigquery_row lib (utcnow clk) (envelope_event fs) = Inr r
         \<and> map_of r ''before_data'' = Some JNull
         \<and> map_of r ''after_data'' = Some JNull
         \<and> map_of r ''raw_payload'' = Some (JString ''{}'')
         \<and> buffer_rows (table_name (envelope_event fs))
               (buffer (buffer_append (table_name (envelope_event fs)) r p)) =
             buffer_rows (table_name (envelope_event fs)) (buffer p) @ [r]
         \<and> handle_message lib client clk data p w =
             ack_then_flush lib client clk
               (buffer_append (table_name (envelope_event fs)) r p) w
         \<and> handle_message lib client clk data p w = (p', w', Ack # fx)"
proof -
  let ?ev = "envelope_event fs"
  have parse: "from_debezium (JObject fs) = Inr ?ev"
    by (rule valid_envelope_parse [OF assms(2)])
  from assms(3,4) have bf: "before ?ev = JNull" and af: "after ?ev = JNull"
    by (simp_all add: envelope_event_def)
  from valid_envelope_projects [OF assms(2)]
  obtain r where r: "to_bigquery_row lib (utcnow clk) ?ev = Inr r"
    by blast
  have k1: "\<forall>k. ''before_data'' \<noteq> ''col_'' @ k" by simp
  have k2: "\<forall>k. ''after_data'' \<noteq> ''col_'' @ k" by simp
  have k3: "\<forall>k. ''raw_payload'' \<noteq> ''col_'' @ k" by simp
  from to_bigquery_row_columns [OF r k1] bf
  have c1: "map_of r ''before_data'' = Some JNull"
    by (auto simp: audit_columns_def)
  from to_bigquery_row_columns [OF r k2] af
  have c2: "map_of r ''after_data'' = Some JNull"
    by (auto simp: audit_columns_def)
  from to_bigquery_row_columns [OF r k3] bf af
  have c3: "map_of r ''raw_payload'' = Some (JString ''{}'')"
    by (auto simp: audit_columns_def py_or_def)
  have rows: "buffer_rows (table_name ?ev) (buffer (buffer_append (table_name ?ev) r p)) =
                buffer_rows (table_name ?ev) (buffer p) @ [r]"
    by (simp add: buffer_append_def buffer_rows_add)
  have h: "handle_message lib client clk data p w =
             ack_then_flush lib client clk (buffer_append (table_name ?ev) r p) w"
    by (rule handle_message_valid [OF assms(1,2) r])
  from ack_then_flush_acks [of lib client clk "buffer_append (table_name ?ev) r p" w]
  obtain p' w' fx where
    "ack_then_flush lib client clk (buffer_append (table_name ?ev) r p) w = (p', w', Ack # fx)"
    by blast
  with h have acked: "handle_message lib client clk data p w = (p', w', Ack # fx)"
    by simp
  show ?thesis
    using parse bf af r c1 c2 c3 rows h acked
    by (intro exI [of _ r] exI [of _ p'] exI [of _ w'] exI [of _ fx] conjI)
qed

theorem envelope_without_images_is_buffered_witness:
  "json_loads (lib_decoding (Inr (JObject envelope_no_images))) ''m3'' =
     Inr (JObject envelope_no_images)
   \<and> valid_envelope (JObject envelope_no_images)
   \<and> dict_get envelope_no_images ''before'' JNull = JNull
   \<and> dict_get envelope_no_images ''after'' JNull = JNull
   \<and> (\<exists>r p' w' fx.
         to_bigquery_row (lib_decoding (Inr (JObject envelope_no_images)))
           (utcnow sample_clock) (envelope_event envelope_no_images) = Inr r
       \<and> map_of r ''raw_payload'' = Some (JString ''{}'')
       \<and> buffer_rows (JString ''orders'')
            (buffer (buffer_append (JString ''orders'') r sample_pipeline)) = [r]
       \<and> handle_message (lib_decoding (Inr (JObject envelope_no_images))) (client_answering [])
            sample_clock ''m3'' sample_pipeline (0::nat) = (p', w', Ack # fx))"
proof -
  let ?lib = "lib_decoding (Inr (JObject envelope_no_images))"
  have h1: "json_loads ?lib ''m3'' = Inr (JObject envelope_no_images)"
    by (simp add: lib_decoding_def)
  have h2: "valid_envelope (JObject envelope_no_images)"
    by code_simp
  have h3: "dict_get envelope_no_images ''before'' JNull = JNull"
    by code_simp
  have h4: "dict_get envelope_no_images ''after'' JNull = JNull"
    by code_simp
  have tn: "table_name (envelope_event envelope_no_images) = JString ''orders''"
    by code_simp
  have b0: "buffer_rows (JString ''orders'') (buffer sample_pipeline) = []"
    by code_simp
  from envelope_without_images_is_buffered [OF h1 h2 h3 h4, where clk = sample_clock
      and client = "client_answering []" and p = sample_pipeline and w = "0::nat"]
  obtain r p' w' fx where
      "to_bigquery_row ?lib (utcnow sample_clock) (envelope_event envelope_no_images) = Inr r"
      "map_of r ''raw_payload'' = Some (JString ''{}'')"
      "buffer_rows (table_name (envelope_event envelope_no_images))
         (buffer (buffer_append (table_name (envelope_event envelope_no_images)) r
            sample_pipeline)) =
       buffer_rows (table_name (envelope_event envelope_no_images)) (buffer sample_pipeline) @ [r]"
      "handle_message ?lib (client_answering []) sample_clock ''m3'' sample_pipeline (0::nat) =
         (p', w', Ack # fx)"
    by (elim exE conjE)
  with h1 h2 h3 h4 tn b0 show ?thesis by auto
qed

text \<open>
  The specification asks for a parse failure. An insert for table \<^verbatim>\<open>orders\<close> with
  neither image is parsed, buffered and acknowledged.
\<close>

theorem envelope_without_images_accepted:
  "json_loads (lib_decoding (Inr (JObject envelope_no_images))) ''m3'' =
     Inr (JObject envelope_no_images)
   \<and> map_of envelope_no_images ''before'' = None
   \<and> map_of envelope_no_images ''after'' = None
   \<and> \<not> isl (from_debezium (JObject envelope_no_images))
   \<and> before (projr (from_debezium (JObject envelope_no_images))) = JNull
   \<and> after (projr (from_debezium (JObject envelope_no_images))) = JNull
   \<and> snd (snd (handle_message (lib_decoding (Inr (JObject envelope_no_images)))
                 (client_answering []) sample_clock ''m3'' sample_pipeline (0::nat))) = [Ack]
   \<and> buffer_count (fst (handle_message (lib_decoding (Inr (JObject envelope_no_images)))
                 (client_answering []) sample_clock ''m3'' sample_pipeline (0::nat))) = 1
   \<and> length (buffer_rows (JString ''orders'')
        (buffer (fst (handle_message (lib_decoding (Inr (JObject envelope_no_images)))
                 (client_answering []) sample_clock ''m3'' sample_pipeline (0::nat))))) = 1"
  by code_simp

subsection \<open>The sink writer\<close>

text \<open>
  C7 (amended). For every non-empty batch whose table is ensured and whose insert reports
  a non-empty list of per-row errors, \<^verbatim>\<open>write_batch\<close> returns one integer, the number
  of rows minus the number of reported errors; the errors themselves are logged, not
  returned. It calls \<^verbatim>\<open>insert_rows_json\<close> once (the world it leaves is the world after
  that one call) and raises nothing.
\<close>

theorem write_batch_partial_failure:
  assumes "rows \<noteq> []"
    and "ensure_table_exists lib client s tname w = (Inr table_id, s1, w1, fx)"
    and "insert_rows_json client table_id rows w1 = (Inr errors, w2)"
    and "errors \<noteq> []"
  shows "write_batch lib client s tname rows w =
           (Inr (int (length rows) - int (length errors)), s1, w2,
            fx @ [LogError ''BigQuery insert errors''])"
  using assms by (simp add: write_batch_def)

theorem write_batch_partial_failure_witness:
  "[sample_row, sample_row] \<noteq> []
   \<and> ensure_table_exists (lib_decoding (Inl JSONDecodeError)) (client_answering [(0, ''invalid'')])
        (sink sample_pipeline) (JString ''orders'') (0::nat) =
       (Inr ''local-dev.raw.cdc_orders'',
        (sink sample_pipeline)\<lparr>table_schemas := [JString ''orders'']\<rparr>, 0,
        [LogInfo ''Table ensured''])
   \<and> insert_rows_json (client_answering [(0, ''invalid'')]) ''local-dev.raw.cdc_orders''
        [sample_row, sample_row] (0::nat) = (Inr [(0, ''invalid'')], 1)
   \<and> [(0::nat, ''invalid'')] \<noteq> []
   \<and> write_batch (lib_decoding (Inl JSONDecodeError)) (client_answering [(0, ''invalid'')])
        (sink sample_pipeline) (JString ''orders'') [sample_row, sample_row] (0::nat) =
       (Inr 1, (sink sample_pipeline)\<lparr>table_schemas := [JString ''orders'']\<rparr>, 1,
        [LogInfo ''Table ensured'', LogError ''BigQuery insert errors''])"
proof -
  let ?lib = "lib_decoding (Inl JSONDecodeError)"
  let ?c = "client_answering [(0, ''invalid'')]"
  have h1: "[sample_row, sample_row] \<noteq> []" by simp
  have h2: "ensure_table_exists ?lib ?c (sink sample_pipeline) (JString ''orders'') (0::nat) =
       (Inr ''local-dev.raw.cdc_orders'',
        (sink sample_pipeline)\<lparr>table_schemas := [JString ''orders'']\<rparr>, 0,
        [LogInfo ''Table ensured''])"
    by code_simp
  have h3: "insert_rows_json ?c ''local-dev.raw.cdc_orders''
        [sample_row, sample_row] (0::nat) = (Inr [(0, ''invalid'')], 1)"
    by (simp add: client_answering_def)
  have h4: "[(0::nat, ''invalid'')] \<noteq> []" by simp
  from write_batch_partial_failure [OF h1 h2 h3 h4] h1 h2 h3 h4 show ?thesis by simp
qed

text \<open>
  The specification asks for the list of per-row errors in the result. Two inserts that
  reject different rows for different reasons give the same result, 1.
\<close>

theorem write_batch_returns_count_only:
  "insert_rows_json (client_answering [(0, ''invalid'')]) ''local-dev.raw.cdc_orders''
        [sample_row, sample_row] (0::nat) = (Inr [(0, ''invalid'')], 1)
   \<and> insert_rows_json (client_answering [(1, ''no such field'')]) ''local-dev.raw.cdc_orders''
        [sample_row, sample_row] (0::nat) = (Inr [(1, ''no such field'')], 1)
   \<and> fst (write_batch (lib_decoding (Inl JSONDecodeError)) (client_answering [(0, ''invalid'')])
        (sink sample_pipeline) (JString ''orders'') [sample_row, sample_row] (0::nat)) = Inr 1
   \<and> fst (write_batch (lib_decoding (Inl JSONDecodeError))
        (client_answering [(1, ''no such field'')])
        (sink sample_pipeline) (JString ''orders'') [sample_row, sample_row] (0::nat)) = Inr 1"
  by code_simp

subsection \<open>The state after a flush\<close>

text \<open>
  C8 (amended). After every flush of a non-empty buffer set that returns normally, that is
  in which no call of the sink raises, the buffer dict is empty, the buffered-row counter
  is 0 and the last-flush time is the time read at the end of the flush, however many rows
  the sink rejected; the rejected rows are not buffered again, and the \<^verbatim>\<open>_running\<close> flag
  and the configuration are unchanged.
\<close>

theorem flush_resets_buffers:
  assumes "buffer p \<noteq> []"
    and "flush_all_buffers lib client t_done p w = (None, p', w', fx)"
  shows "buffer p' = [] \<and> buffer_count p' = 0 \<and> last_flush_time p' = t_done
       \<and> running p' = running p \<and> config p' = config p"
proof (cases "write_tables lib client (sink p) w (buffer p) 0")
  case (fields res s1 w1 fx1)
  show ?thesis
  proof (cases res)
    case (Inl e)
    with fields assms show ?thesis
      by (simp add: flush_all_buffers_def)
  next
    case (Inr total_written)
    with fields assms show ?thesis
      by (auto simp: flush_all_buffers_def)
  qed
qed

theorem flush_resets_buffers_witness:
  "buffer loaded_pipeline \<noteq> []
   \<and> flush_all_buffers (lib_decoding (Inl JSONDecodeError)) (client_answering [(0, ''invalid'')])
        1700000002 loaded_pipeline (0::nat) =
       (None,
        loaded_pipeline\<lparr>sink := (sink loaded_pipeline)\<lparr>table_schemas := [JString ''orders'']\<rparr>,
          total_processed := 1, buffer := [], buffer_count := 0,
          last_flush_time := 1700000002\<rparr>,
        1,
        [LogInfo ''Table ensured'', LogError ''BigQuery insert errors'',
         LogInfo ''Buffer flushed''])
   \<and> buffer (loaded_pipeline\<lparr>sink := (sink loaded_pipeline)\<lparr>table_schemas := [JString ''orders'']\<rparr>,
          total_processed := 1, buffer := [], buffer_count := 0,
          last_flush_time := 1700000002\<rparr>) = []
   \<and> running loaded_pipeline"
proof -
  let ?p' = "loaded_pipeline\<lparr>sink := (sink loaded_pipeline)\<lparr>table_schemas := [JString ''orders'']\<rparr>,
          total_processed := 1, buffer := [], buffer_count := 0,
          last_flush_time := 1700000002\<rparr>"
  have h1: "buffer loaded_pipeline \<noteq> []"
    by code_simp
  have h2: "flush_all_buffers (lib_decoding (Inl JSONDecodeError))
        (client_answering [(0, ''invalid'')]) 1700000002 loaded_pipeline (0::nat) =
       (None, ?p', 1,
        [LogInfo ''Table ensured'', LogError ''BigQuery insert errors'',
         LogInfo ''Buffer flushed''])"
    by code_simp
  have h3: "running loaded_pipeline"
    by code_simp
  from flush_resets_buffers [OF h1 h2] h1 h2 h3 show ?thesis by simp
qed

text \<open>
  The specification covers failed flushes too. When the insert raises, the exception
  leaves \<^verbatim>\<open>_flush_all_buffers\<close> before \<^verbatim>\<open>self._buffer.clear()\<close>: the two buffered rows,
  the counter and the last-flush time stay as they were.
\<close>

theorem failed_flush_keeps_buffers:
  "buffer loaded_pipeline \<noteq> []
   \<and> flush_all_buffers (lib_decoding (Inl JSONDecodeError)) client_unreachable
        1700000002 loaded_pipeline (0::nat) =
       (Some (BackendError ''unreachable''),
        loaded_pipeline\<lparr>sink := (sink loaded_pipeline)\<lparr>table_schemas := [JString ''orders'']\<rparr>\<rparr>,
        1, [LogInfo ''Table ensured''])
   \<and> buffer_rows (JString ''orders'')
        (buffer (fst (snd (flush_all_buffers (lib_decoding (Inl JSONDecodeError))
           client_unreachable 1700000002 loaded_pipeline (0::nat))))) = [sample_row, sample_row]
   \<and> buffer_count (fst (snd (flush_all_buffers (lib_decoding (Inl JSONDecodeError))
           client_unreachable 1700000002 loaded_pipeline (0::nat)))) = 2
   \<and> last_flush_time (fst (snd (flush_all_buffers (lib_decoding (Inl JSONDecodeError))
           client_unreachable 1700000002 loaded_pipeline (0::nat)))) = 1700000000"
  by code_simp

subsection \<open>The raw payload\<close>

text \<open>
  C9 (amended). For every valid CDC envelope, parsing followed by row projection yields a
  row whose \<^verbatim>\<open>raw_payload\<close> column is a non-empty string: the serialization of the
  \<^verbatim>\<open>after\<close> image if it is present and not empty, else of the \<^verbatim>\<open>before\<close> image if it
  is present and not empty, else of an empty object.
\<close>

theorem raw_payload_never_empty:
  assumes "valid_envelope (JObject fs)"
  shows "\<exists>r s.
           from_debezium (JObject fs) = Inr (envelope_event fs)
         \<and> to_bigquery_row lib now (envelope_event fs) = Inr r
         \<and> map_of r ''raw_payload'' = Some (JString s)
         \<and> s \<noteq> []
         \<and> s = dumps lib
                 (if truthy (after (envelope_event fs)) then after (envelope_event fs)
                  else if truthy (before (envelope_event fs)) then before (envelope_event fs)
                  else JObject [])"
proof -
  let ?ev = "envelope_event fs"
  let ?v = "if truthy (after ?ev) then after ?ev
            else if truthy (before ?ev) then before ?ev else JObject []"
  have parse: "from_debezium (JObject fs) = Inr ?ev"
    by (rule valid_envelope_parse [OF assms])
  from valid_envelope_projects [OF assms]
  obtain r where r: "to_bigquery_row lib now ?ev = Inr r"
    by blast
  have k: "\<forall>k. ''raw_payload'' \<noteq> ''col_'' @ k" by simp
  from to_bigquery_row_columns [OF r k]
  have col: "map_of r ''raw_payload'' = Some (JString (dumps lib ?v))"
    by (auto simp: audit_columns_def py_or_def)
  from is_image_cases [OF valid_envelope_fields(3) [OF assms]]
       is_image_cases [OF valid_envelope_fields(4) [OF assms]]
  obtain kvs where "?v = JObject kvs"
    by (cases "truthy (after ?ev)"; cases "truthy (before ?ev)") auto
  then have ne: "dumps lib ?v \<noteq> []"
    by (simp only: dumps_object_nonempty not_False_eq_True)
  show ?thesis
    using parse r col ne
    by (intro exI [of _ r] exI [of _ "dumps lib ?v"] conjI) simp_all
qed

theorem raw_payload_never_empty_witness:
  "valid_envelope (JObject envelope_epoch)
   \<and> (\<exists>r s. to_bigquery_row (lib_decoding (Inr (JObject envelope_epoch))) 1700000000500000
                (envelope_event envelope_epoch) = Inr r
            \<and> map_of r ''raw_payload'' = Some (JString s)
            \<and> s \<noteq> []
            \<and> s = dumps (lib_decoding (Inr (JObject envelope_epoch)))
                    (JObject [(''id'', JInt 1)]))"
proof -
  let ?lib = "lib_decoding (Inr (JObject envelope_epoch))"
  have h: "valid_envelope (JObject envelope_epoch)"
    by code_simp
  have a: "after (envelope_event envelope_epoch) = JObject [(''id'', JInt 1)]"
    by code_simp
  from raw_payload_never_empty [OF h, of ?lib 1700000000500000]
  obtain r s where
      "to_bigquery_row ?lib 1700000000500000 (envelope_event envelope_epoch) = Inr r"
      "map_of r ''raw_payload'' = Some (JString s)"
      "s \<noteq> []"
      "s = dumps ?lib
             (if truthy (after (envelope_event envelope_epoch))
              then after (envelope_event envelope_epoch)
              else if truthy (before (envelope_event envelope_epoch))
                   then before (envelope_event envelope_epoch)
                   else JObject [])"
    by (elim exE conjE)
  with h a show ?thesis by auto
qed

text \<open>
  The specification takes the \<^verbatim>\<open>after\<close> image whenever it is present. In
  \<^verbatim>\<open>self.after or self.before or {}\<close> an empty \<^verbatim>\<open>after\<close> object is falsy: for an
  update with \<^verbatim>\<open>after = {}\<close> and \<^verbatim>\<open>before = {"id": 1}\<close> the column holds the
  serialization of \<^verbatim>\<open>before\<close>.
\<close>

theorem raw_payload_skips_empty_after:
  "valid_envelope (JObject envelope_empty_after)
   \<and> after (envelope_event envelope_empty_after) = JObject []
   \<and> before (envelope_event envelope_empty_after) = JObject [(''id'', JInt 1)]
   \<and> \<not> isl (to_bigquery_row (lib_decoding (Inr (JObject envelope_empty_after)))
               1700000000500000 (envelope_event envelope_empty_after))
   \<and> map_of (projr (to_bigquery_row (lib_decoding (Inr (JObject envelope_empty_after)))
                      1700000000500000 (envelope_event envelope_empty_after))) ''raw_payload'' =
       Some (JString (dumps (lib_decoding (Inr (JObject envelope_empty_after)))
                        (JObject [(''id'', JInt 1)])))
   \<and> dumps (lib_decoding (Inr (JObject envelope_empty_after))) (JObject [(''id'', JInt 1)])
       \<noteq> dumps (lib_decoding (Inr (JObject envelope_empty_after)))
            (after (envelope_event envelope_empty_after))"
  by code_simp

subsection \<open>Determinism of the projection\<close>

text \<open>
  C10. Row projection is deterministic and idempotent: calling it twice on the same change
  record with the same current time yields identical rows (or the same exception). It
  reads the fields of the record and the clock and assigns nothing; the clock reading
  reaches the row through the column \<^verbatim>\<open>ingested_at\<close> alone, so the projection at one
  reading is the projection at any other with that column overwritten.
\<close>

theorem to_bigquery_row_deterministic:
  "(now1 = now2 \<longrightarrow> to_bigquery_row lib now1 ev = to_bigquery_row lib now2 ev)
   \<and> to_bigquery_row lib now1 ev =
       map_sum id (AList.update ''ingested_at'' (JString (isoformat now1)))
         (to_bigquery_row lib now2 ev)"
proof
  show "now1 = now2 \<longrightarrow> to_bigquery_row lib now1 ev = to_bigquery_row lib now2 ev"
    by simp
next
  have k: "\<forall>j. ''ingested_at'' \<noteq> ''col_'' @ j" by simp
  show "to_bigquery_row lib now1 ev =
          map_sum id (AList.update ''ingested_at'' (JString (isoformat now1)))
            (to_bigquery_row lib now2 ev)"
  proof (cases "operation_label ev")
    case (Inl e)
    then show ?thesis by (simp add: to_bigquery_row_def)
  next
    case l: (Inr l)
    show ?thesis
    proof (cases "cdc_timestamp ev")
      case (Inl e)
      with l show ?thesis by (simp add: to_bigquery_row_def)
    next
      case ts: (Inr ts)
      have flat: "\<And>items. flatten_after lib items (audit_columns lib now1 ev l ts) =
          AList.update ''ingested_at'' (JString (isoformat now1))
            (flatten_after lib items (audit_columns lib now2 ev l ts))"
        using flatten_after_update [OF k ingested_at_in_audit_columns]
              audit_columns_now [of lib now1 ev l ts now2]
        by simp
      show ?thesis
      proof (cases "truthy (after ev)")
        case False
        with l ts show ?thesis
          using audit_columns_now [of lib now1 ev l ts now2]
          by (simp add: to_bigquery_row_def)
      next
        case True
        with l ts flat show ?thesis
          by (cases "after ev") (simp_all add: to_bigquery_row_def)
      qed
    qed
  qed
qed

theorem to_bigquery_row_deterministic_witness:
  "(1700000000500000 :: int) = 1700000000500000
   \<and> to_bigquery_row (lib_decoding (Inr (JObject envelope_epoch))) 1700000000500000
        (envelope_event envelope_epoch) =
     to_bigquery_row (lib_decoding (Inr (JObject envelope_epoch))) 1700000000500000
        (envelope_event envelope_epoch)
   \<and> \<not> isl (to_bigquery_row (lib_decoding (Inr (JObject envelope_epoch))) 1700000000500000
        (envelope_event envelope_epoch))"
proof -
  have ok: "\<not> isl (to_bigquery_row (lib_decoding (Inr (JObject envelope_epoch)))
        1700000000500000 (envelope_event envelope_epoch))"
    by code_simp
  from to_bigquery_row_deterministic
    [of 1700000000500000 1700000000500000 "lib_decoding (Inr (JObject envelope_epoch))"
        "envelope_event envelope_epoch"] ok
  show ?thesis by simp
qed

end
